theory Spec2Isabelle
  imports Complex_Main
begin

section \<open>The bidder: data model\<close>

text \<open>
  The development embeds the auction path of the bidder: \<open>externalIdsFromRequest\<close>,
  \<open>emptyResponseWithOneSeat\<close>, \<open>Agent.DoBid\<close> and \<open>Agent.RegisterAgent\<close> of the agent
  file, and \<open>fastHandleAuctions\<close> of \<open>main.go\<close>.

  Go values decoded from JSON into \<open>interface{}\<close> are \<open>nil\<close>, \<open>bool\<close>, \<open>float64\<close>,
  \<open>string\<close>, \<open>[]interface{}\<close> and \<open>map[string]interface{}\<close>. A \<open>float64\<close> is
  represented by the real number it denotes; the code does no arithmetic on it, it only
  copies it or converts it to \<open>int\<close>. A map is an association list read with \<open>map_of\<close>.
\<close>

datatype json =
    JNull
  | JBool bool
  | JNum real
  | JStr string
  | JArr "json list"
  | JObj "(string \<times> json) list"

text \<open>A runtime panic of the Go program, by the operation that raises it.\<close>

datatype panic =
    NilDereference
  | TypeAssertion
  | IntnNonPositive
  | IndexOutOfRange

record Creative =
  Format :: string
  Id :: int
  Name :: string

record AgentConfig =
  Account :: "string list"
  Augmentations :: "string option"
  BidControl :: "string option"
  BidProbability :: real
  Creatives :: "Creative list"
  ErrorFormat :: string
  External :: bool
  ExternalId :: int
  LossFormat :: string
  MinTimeAvailableMs :: real
  WinFormat :: string

text \<open>The channel \<open>pacer\<close> of an agent: not made yet, open, or closed.\<close>

datatype chan = NilChan | OpenChan | ClosedChan

record Agent =
  Name :: string
  Config :: AgentConfig
  Price :: real
  Period :: int
  Balance :: int
  registered :: bool
  pacer :: chan
  bidId :: int

record creativesKey =
  ImpId :: string
  ExtId :: int

text \<open>
  The types of the OpenRTB library, with the fields the bidder reads or writes. The
  extension of an impression is indexed by the code as a \<open>map[string]interface{}\<close>; the
  extension of a bid is the bytes that \<open>json.Marshal\<close> returns, kept here as the JSON
  value they encode.
\<close>

record Impression =
  ID :: string
  Ext :: "(string \<times> json) list"

record BidRequest =
  ID :: string
  Imp :: "Impression list"

record Bid =
  ID :: string
  ImpID :: string
  CreativeID :: string
  Price :: real
  Ext :: json

record SeatBid =
  Bid :: "Bid list"

record BidResponse =
  ID :: string
  SeatBid :: "SeatBid list"

type_synonym ids = "creativesKey \<Rightarrow> json option"

text \<open>
  The source of random numbers is the sequence of raw draws still to come; \<open>rand.Intn\<close>
  takes the first one.
\<close>

type_synonym rng = "nat \<Rightarrow> nat"

section \<open>Library operations used by the code\<close>

text \<open>
  \<open>strconv.Itoa\<close>: the decimal digits of an integer, with a minus sign when negative.
\<close>

fun digits :: "nat \<Rightarrow> string" where
  "digits n = (if n < 10 then [''0123456789'' ! n] else digits (n div 10) @ [''0123456789'' ! (n mod 10)])"

declare digits.simps [simp del]

definition Itoa :: "int \<Rightarrow> string" where
  "Itoa i = (if i < 0 then CHR ''-'' # digits (nat (- i)) else digits (nat i))"

text \<open>
  The conversion \<open>int(x)\<close> of a \<open>float64\<close>: the fraction is discarded (truncation towards
  zero). Outside the range of the 64-bit \<open>int\<close> the Go specification leaves the result
  to the implementation; the model takes the value the amd64 conversion instruction
  gives, the least \<open>int\<close>.
\<close>

definition go_int :: "real \<Rightarrow> int" where
  "go_int x =
     (let t = (if x < 0 then \<lceil>x\<rceil> else \<lfloor>x\<rfloor>)
      in if - (2 ^ 63) \<le> t \<and> t < 2 ^ 63 then t else - (2 ^ 63))"

text \<open>Addition on the 64-bit \<open>int\<close> wraps around.\<close>

definition wrap_int :: "int \<Rightarrow> int" where
  "wrap_int x = (x + 2 ^ 63) mod 2 ^ 64 - 2 ^ 63"

text \<open>
  \<open>rand.Intn n\<close> panics when \<open>n \<le> 0\<close> and otherwise returns a number in \<open>[0, n)\<close>. The
  raw draw is reduced modulo \<open>n\<close>, so every number of the range is returned for some
  draw.
\<close>

definition Intn :: "nat \<Rightarrow> rng \<Rightarrow> panic + (nat \<times> rng)" where
  "Intn n rng = (if n = 0 then Inl IntnNonPositive else Inr (rng 0 mod n, \<lambda>i. rng (Suc i)))"

text \<open>Indexing a Go map: a key that is absent reads as \<open>nil\<close>.\<close>

definition mapIndex :: "(string \<times> json) list \<Rightarrow> string \<Rightarrow> json" where
  "mapIndex m k = (case map_of m k of None \<Rightarrow> JNull | Some v \<Rightarrow> v)"

definition idsIndex :: "ids \<Rightarrow> creativesKey \<Rightarrow> json" where
  "idsIndex m k = (case m k of None \<Rightarrow> JNull | Some v \<Rightarrow> v)"

text \<open>
  The type assertions \<open>x.([]interface{})\<close>, \<open>x.(float64)\<close>,
  \<open>x.(map[string]interface{})\<close> and \<open>x.(interface{})\<close>, written without the
  \<open>ok\<close> result: each panics when the dynamic type is another one, and each panics on
  \<open>nil\<close>.
\<close>

definition assertSlice :: "json \<Rightarrow> panic + json list" where
  "assertSlice v = (case v of JArr xs \<Rightarrow> Inr xs | _ \<Rightarrow> Inl TypeAssertion)"

definition assertFloat64 :: "json \<Rightarrow> panic + real" where
  "assertFloat64 v = (case v of JNum x \<Rightarrow> Inr x | _ \<Rightarrow> Inl TypeAssertion)"

definition assertMap :: "json \<Rightarrow> panic + (string \<times> json) list" where
  "assertMap v = (case v of JObj m \<Rightarrow> Inr m | _ \<Rightarrow> Inl TypeAssertion)"

definition assertInterface :: "json \<Rightarrow> panic + json" where
  "assertInterface v = (case v of JNull \<Rightarrow> Inl TypeAssertion | _ \<Rightarrow> Inr v)"

section \<open>Building the creative index\<close>

text \<open>
  The inner loop of \<open>externalIdsFromRequest\<close>, over the elements of
  \<open>imp.Ext["external-ids"]\<close>.
\<close>

fun externalIds_loop :: "Impression \<Rightarrow> json list \<Rightarrow> ids \<Rightarrow> panic + ids" where
  "externalIds_loop imp [] ids = Inr ids"
| "externalIds_loop imp (extID # rest) ids =
     (case assertFloat64 extID of
        Inl e \<Rightarrow> Inl e
      | Inr x \<Rightarrow>
          let key = \<lparr>ImpId = Impression.ID imp, ExtId = go_int x\<rparr> in
          (case assertMap (mapIndex (Impression.Ext imp) ''creative-ids'') of
             Inl e \<Rightarrow> Inl e
           | Inr m \<Rightarrow>
               let creatives = mapIndex m (Itoa (go_int x)) in
               (case assertInterface creatives of
                  Inl e \<Rightarrow> Inl e
                | Inr c \<Rightarrow> externalIds_loop imp rest (ids(key \<mapsto> c)))))"

text \<open>The outer loop, over the impressions of the request.\<close>

fun externalIds_imps :: "Impression list \<Rightarrow> ids \<Rightarrow> panic + ids" where
  "externalIds_imps [] ids = Inr ids"
| "externalIds_imps (imp # imps) ids =
     (case assertSlice (mapIndex (Impression.Ext imp) ''external-ids'') of
        Inl e \<Rightarrow> Inl e
      | Inr extIDs \<Rightarrow>
          (case externalIds_loop imp extIDs ids of
             Inl e \<Rightarrow> Inl e
           | Inr ids' \<Rightarrow> externalIds_imps imps ids'))"

definition externalIdsFromRequest :: "BidRequest \<Rightarrow> panic + ids" where
  "externalIdsFromRequest req = externalIds_imps (Imp req) Map.empty"

definition emptyResponseWithOneSeat :: "BidRequest \<Rightarrow> BidResponse" where
  "emptyResponseWithOneSeat req =
     (let seat = \<lparr>Bid = []\<rparr>;
          seatbid = [seat]
      in \<lparr>BidResponse.ID = BidRequest.ID req, SeatBid = seatbid\<rparr>)"

section \<open>The bid decision of one agent\<close>

text \<open>
  The extension of a bid: \<open>json.Marshal\<close> of the map with the keys \<open>priority\<close> and
  \<open>external-id\<close>, which writes the keys in sorted order.
\<close>

definition bidExt :: "Agent \<Rightarrow> json" where
  "bidExt agent =
     JObj [(''external-id'', JNum (of_int (ExternalId (Config agent)))), (''priority'', JNum 1)]"

text \<open>
  One iteration of the loop of \<open>DoBid\<close>. The agent, the response behind the pointer
  \<open>res\<close> and the random source are the state it changes.
\<close>

definition DoBid_body ::
  "Impression \<Rightarrow> ids \<Rightarrow> Agent \<Rightarrow> BidResponse \<Rightarrow> rng \<Rightarrow> panic + (Agent \<times> BidResponse \<times> rng)" where
  "DoBid_body imp ids agent res rng =
     (let key = \<lparr>ImpId = Impression.ID imp, ExtId = ExternalId (Config agent)\<rparr> in
      if idsIndex ids key = JNull then Inr (agent, res, rng)
      else
        case assertSlice (idsIndex ids key) of
          Inl e \<Rightarrow> Inl e
        | Inr creativeList \<Rightarrow>
            (case Intn (length creativeList) rng of
               Inl e \<Rightarrow> Inl e
             | Inr (n, rng') \<Rightarrow>
                 (case assertFloat64 (creativeList ! n) of
                    Inl e \<Rightarrow> Inl e
                  | Inr x \<Rightarrow>
                      let cridx = go_int x in
                      if cridx < 0 \<or> int (length (Creatives (Config agent))) \<le> cridx
                      then Inl IndexOutOfRange
                      else
                        let creative = Creatives (Config agent) ! nat cridx;
                            crid = Itoa (Creative.Id creative);
                            bidId' = Itoa (bidId agent);
                            price = Agent.Price agent;
                            jsonExt = bidExt agent;
                            bid = \<lparr>Bid.ID = bidId', ImpID = Impression.ID imp, CreativeID = crid,
                                   Bid.Price = price, Bid.Ext = jsonExt\<rparr>;
                            agent' = agent\<lparr>bidId := wrap_int (bidId agent + 1)\<rparr>
                        in (case SeatBid res of
                              [] \<Rightarrow> Inl IndexOutOfRange
                            | seat # seats \<Rightarrow>
                                Inr (agent',
                                     res\<lparr>SeatBid := seat\<lparr>Bid := Bid seat @ [bid]\<rparr> # seats\<rparr>,
                                     rng')))))"

fun DoBid_loop ::
  "Impression list \<Rightarrow> ids \<Rightarrow> Agent \<Rightarrow> BidResponse \<Rightarrow> rng \<Rightarrow> panic + (Agent \<times> BidResponse \<times> rng)" where
  "DoBid_loop [] ids agent res rng = Inr (agent, res, rng)"
| "DoBid_loop (imp # imps) ids agent res rng =
     (case DoBid_body imp ids agent res rng of
        Inl e \<Rightarrow> Inl e
      | Inr (agent', res', rng') \<Rightarrow> DoBid_loop imps ids agent' res' rng')"

text \<open>
  \<open>DoBid\<close> returns the response and the flag \<open>len(res.SeatBid[0].Bid) > 0\<close>; the model
  returns the agent and the random source after the call as well.
\<close>

definition DoBid ::
  "Agent \<Rightarrow> BidRequest \<Rightarrow> BidResponse \<Rightarrow> ids \<Rightarrow> rng \<Rightarrow> panic + (Agent \<times> BidResponse \<times> bool \<times> rng)" where
  "DoBid agent req res ids rng =
     (case DoBid_loop (Imp req) ids agent res rng of
        Inl e \<Rightarrow> Inl e
      | Inr (agent', res', rng') \<Rightarrow>
          (case SeatBid res' of
             [] \<Rightarrow> Inl IndexOutOfRange
           | seat # seats \<Rightarrow> Inr (agent', res', 0 < length (Bid seat), rng')))"

section \<open>The auction endpoint\<close>

text \<open>
  The response part of the request context: status code, headers and body. The body is
  empty (\<open>None\<close>) or the JSON encoding of a bid response. Header names are kept as
  the source writes them; setting a header replaces the value it had.
\<close>

record RequestCtx =
  StatusCode :: nat
  Header :: "(string \<times> string) list"
  Body :: "BidResponse option"

definition HeaderSet :: "string \<Rightarrow> string \<Rightarrow> RequestCtx \<Rightarrow> RequestCtx" where
  "HeaderSet k v ctx = ctx\<lparr>Header := (k, v) # filter (\<lambda>kv. fst kv \<noteq> k) (Header ctx)\<rparr>"

text \<open>
  The loop over the agents in \<open>fastHandleAuctions\<close>. The loop variable \<open>agent\<close> is a copy
  of the element of the slice: \<open>DoBid\<close> changes the copy, which is dropped at the end of
  the iteration, and the slice keeps its elements.
\<close>

fun agents_loop ::
  "Agent list \<Rightarrow> BidRequest \<Rightarrow> ids \<Rightarrow> BidResponse \<Rightarrow> bool \<Rightarrow> rng \<Rightarrow> panic + (BidResponse \<times> bool \<times> rng)" where
  "agents_loop [] req ids res ok rng = Inr (res, ok, rng)"
| "agents_loop (agent # agents) req ids res ok rng =
     (case DoBid agent req res ids rng of
        Inl e \<Rightarrow> Inl e
      | Inr (agent', res', tmpOk, rng') \<Rightarrow> agents_loop agents req ids res' (tmpOk \<or> ok) rng')"

text \<open>
  \<open>fastHandleAuctions\<close>. The result of \<open>json.Unmarshal\<close> on the body is the argument
  \<open>parsed\<close>: an error message, or the pointer \<open>req\<close>, which is \<open>nil\<close> (\<open>None\<close>) for the
  body \<open>null\<close>. The state is the request context, the slice of agents and the random
  source. The call \<open>BidIncoming()\<close> counts the request in the statistics and touches none
  of these.
\<close>

definition fastHandleAuctions ::
  "string + BidRequest option \<Rightarrow> RequestCtx \<Rightarrow> Agent list \<Rightarrow> rng \<Rightarrow> panic + (RequestCtx \<times> Agent list \<times> rng)" where
  "fastHandleAuctions parsed ctx agents rng =
     (case parsed of
        Inl err \<Rightarrow> Inr (ctx\<lparr>StatusCode := 204\<rparr>, agents, rng)
      | Inr None \<Rightarrow> Inl NilDereference
      | Inr (Some req) \<Rightarrow>
          (case externalIdsFromRequest req of
             Inl e \<Rightarrow> Inl e
           | Inr ids \<Rightarrow>
               let res = emptyResponseWithOneSeat req in
               (case agents_loop agents req ids res True rng of
                  Inl e \<Rightarrow> Inl e
                | Inr (res', ok, rng') \<Rightarrow>
                    if ok then
                      Inr ((HeaderSet ''x-openrtb-version'' ''2.1''
                              (HeaderSet ''Content-type'' ''application/json'' ctx))
                             \<lparr>StatusCode := 200, Body := Some res'\<rparr>,
                           agents, rng')
                    else Inr (ctx\<lparr>StatusCode := 204\<rparr>, agents, rng'))))"

section \<open>Registration\<close>

text \<open>
  \<open>RegisterAgent\<close> posts the configuration to the agent configuration service. The
  service is outside the program: \<open>validURL\<close> says whether \<open>http.NewRequest\<close> accepts the
  URL (it returns a \<open>nil\<close> request otherwise, which the next line dereferences), and
  \<open>httpDo\<close> says whether \<open>httpClient.Do\<close> returns a response rather than an error.
\<close>

definition agentURL :: "string \<Rightarrow> int \<Rightarrow> Agent \<Rightarrow> string" where
  "agentURL acsIp acsPort agent =
     ''http://'' @ acsIp @ '':'' @ Itoa acsPort @ ''/v1/agents/'' @ Name agent @ ''/config''"

definition RegisterAgent ::
  "(string \<Rightarrow> bool) \<Rightarrow> (string \<Rightarrow> bool) \<Rightarrow> string \<Rightarrow> int \<Rightarrow> Agent \<Rightarrow> panic + Agent" where
  "RegisterAgent validURL httpDo acsIp acsPort agent =
     (let url = agentURL acsIp acsPort agent in
      if \<not> validURL url then Inl NilDereference
      else if \<not> httpDo url then Inr agent
      else Inr (agent\<lparr>registered := True\<rparr>))"

section \<open>Notions used to state the properties\<close>

text \<open>The bids of the first seat of a response, the only seat the bidder writes to.\<close>

definition seatBids :: "BidResponse \<Rightarrow> Bid list" where
  "seatBids res = (case SeatBid res of [] \<Rightarrow> [] | seat # seats \<Rightarrow> Bid seat)"

text \<open>How many bids a call added to the seat.\<close>

definition bidsPlaced :: "BidResponse \<Rightarrow> BidResponse \<Rightarrow> nat" where
  "bidsPlaced res res' = length (seatBids res') - length (seatBids res)"

text \<open>The key under which \<open>DoBid\<close> looks an impression up for an agent.\<close>

definition agentKey :: "Agent \<Rightarrow> Impression \<Rightarrow> creativesKey" where
  "agentKey agent imp = \<lparr>ImpId = Impression.ID imp, ExtId = ExternalId (Config agent)\<rparr>"

text \<open>The impressions for which the index has an entry for the agent, in request order.\<close>

definition eligible :: "ids \<Rightarrow> Agent \<Rightarrow> Impression list \<Rightarrow> Impression list" where
  "eligible ids agent imps = filter (\<lambda>imp. idsIndex ids (agentKey agent imp) \<noteq> JNull) imps"

text \<open>The bid counter after \<open>n\<close> increments, and the identifiers of \<open>n\<close> successive bids.\<close>

fun bidIdAfter :: "nat \<Rightarrow> int \<Rightarrow> int" where
  "bidIdAfter 0 c = c"
| "bidIdAfter (Suc n) c = bidIdAfter n (wrap_int (c + 1))"

fun bidIds :: "int \<Rightarrow> nat \<Rightarrow> string list" where
  "bidIds c 0 = []"
| "bidIds c (Suc n) = Itoa c # bidIds (wrap_int (c + 1)) n"

text \<open>
  The creative of a bid is resolved: its identifier is that of the creative which the
  agent configures at a position that the index lists for the impression of the bid.
\<close>

definition candidates :: "json \<Rightarrow> json list" where
  "candidates v = (case v of JArr creativeList \<Rightarrow> creativeList | _ \<Rightarrow> [])"

definition creativeAt :: "Creative list \<Rightarrow> string \<Rightarrow> json \<Rightarrow> bool" where
  "creativeAt creatives crid v =
     (case v of
        JNum x \<Rightarrow>
          0 \<le> go_int x \<and> go_int x < int (length creatives) \<and>
          crid = Itoa (Creative.Id (creatives ! nat (go_int x)))
      | _ \<Rightarrow> False)"

definition resolved :: "Agent \<Rightarrow> ids \<Rightarrow> Impression list \<Rightarrow> Bid \<Rightarrow> bool" where
  "resolved agent ids imps b =
     list_ex
       (\<lambda>imp.
          ImpID b = Impression.ID imp \<and>
          list_ex (creativeAt (Creatives (Config agent)) (CreativeID b))
            (candidates (idsIndex ids (agentKey agent imp))))
       imps"

text \<open>A bid without its creative: what is left is the decision to bid.\<close>

definition eraseCreative :: "Bid \<Rightarrow> Bid" where
  "eraseCreative b = b\<lparr>CreativeID := []\<rparr>"

text \<open>
  The pairs of agent and impression that place a bid in a run of the agents over a
  request. A bid names its agent by its extension, which carries the external id of the
  agent. A run that panics returns no response and places no bid.
\<close>

definition bidPairs :: "panic + (BidResponse \<times> bool \<times> rng) \<Rightarrow> (json \<times> string) set" where
  "bidPairs run =
     (case run of
        Inl e \<Rightarrow> {}
      | Inr (res, ok, rng) \<Rightarrow> set (map (\<lambda>b. (Bid.Ext b, ImpID b)) (seatBids res)))"

text \<open>
  Extension data on which \<open>externalIdsFromRequest\<close> cannot go on: an external id that is
  not a number, or for which \<open>creative-ids\<close> is not a mapping or has no entry; an
  impression without a list \<open>external-ids\<close>, or with such an id in it.
\<close>

definition malformedId :: "Impression \<Rightarrow> json \<Rightarrow> bool" where
  "malformedId imp extID =
     (case extID of
        JNum x \<Rightarrow>
          (case mapIndex (Impression.Ext imp) ''creative-ids'' of
             JObj m \<Rightarrow> mapIndex m (Itoa (go_int x)) = JNull
           | _ \<Rightarrow> True)
      | _ \<Rightarrow> True)"

definition malformedExt :: "Impression \<Rightarrow> bool" where
  "malformedExt imp =
     (case mapIndex (Impression.Ext imp) ''external-ids'' of
        JArr extIDs \<Rightarrow> list_ex (malformedId imp) extIDs
      | _ \<Rightarrow> True)"

section \<open>Concrete requests and agents\<close>

text \<open>
  The scenario of the specification: one agent with external id 42, one creative with
  id 5 and price 1.5; a second agent with external id 99; the request \<open>r1\<close> with one
  impression that lists creative position 0 for the external id 42.
\<close>

definition creative5 :: Creative where
  "creative5 = \<lparr>Format = ''300x250'', Id = 5, Name = ''banner''\<rparr>"

definition creative7 :: Creative where
  "creative7 = \<lparr>Format = ''728x90'', Id = 7, Name = ''leaderboard''\<rparr>"

definition config42 :: AgentConfig where
  "config42 =
     \<lparr>Account = [''hello'', ''world''], Augmentations = None, BidControl = None,
      BidProbability = 1, Creatives = [creative5], ErrorFormat = [], External = True,
      ExternalId = 42, LossFormat = [], MinTimeAvailableMs = 5, WinFormat = []\<rparr>"

definition agent42 :: Agent where
  "agent42 =
     \<lparr>Name = ''agent42'', Config = config42, Agent.Price = 3 / 2, Period = 30000,
      Balance = 15000, registered = False, pacer = NilChan, bidId = 0\<rparr>"

definition agent99 :: Agent where
  "agent99 = agent42\<lparr>Name := ''agent99'', Config := config42\<lparr>ExternalId := 99\<rparr>\<rparr>"

text \<open>An agent with external id 42 and two creatives.\<close>

definition agentTwo :: Agent where
  "agentTwo = agent42\<lparr>Name := ''agentTwo'', Config := config42\<lparr>Creatives := [creative5, creative7]\<rparr>\<rparr>"

text \<open>An impression with id \<open>i\<close> that lists the creative positions \<open>cs\<close> for the external id 42.\<close>

definition impFor42 :: "string \<Rightarrow> json list \<Rightarrow> Impression" where
  "impFor42 i cs =
     \<lparr>Impression.ID = i,
      Impression.Ext = [(''external-ids'', JArr [JNum 42]),
                        (''creative-ids'', JObj [(''42'', JArr cs)])]\<rparr>"

definition imp1 :: Impression where
  "imp1 = impFor42 ''1'' [JNum 0]"

definition req1 :: BidRequest where
  "req1 = \<lparr>BidRequest.ID = ''r1'', Imp = [imp1]\<rparr>"

definition idsReq1 :: ids where
  "idsReq1 = Map.empty(\<lparr>ImpId = ''1'', ExtId = 42\<rparr> \<mapsto> JArr [JNum 0])"

definition bid1 :: Bid where
  "bid1 =
     \<lparr>Bid.ID = ''0'', ImpID = ''1'', CreativeID = ''5'', Bid.Price = 3 / 2,
      Bid.Ext = JObj [(''external-id'', JNum 42), (''priority'', JNum 1)]\<rparr>"

definition resBid1 :: BidResponse where
  "resBid1 = \<lparr>BidResponse.ID = ''r1'', SeatBid = [\<lparr>Bid = [bid1]\<rparr>]\<rparr>"

text \<open>A fresh request context, and two random sources: all draws 0, all draws 1.\<close>

definition ctx0 :: RequestCtx where
  "ctx0 = \<lparr>StatusCode = 200, Header = [], Body = None\<rparr>"

definition rngZero :: rng where
  "rngZero = (\<lambda>i. 0)"

definition rngOne :: rng where
  "rngOne = (\<lambda>i. 1)"

text \<open>A request whose first impression has no extension data.\<close>

definition impNoExt :: Impression where
  "impNoExt = \<lparr>Impression.ID = ''0'', Impression.Ext = []\<rparr>"

definition reqNoExt :: BidRequest where
  "reqNoExt = \<lparr>BidRequest.ID = ''r2'', Imp = [impNoExt, imp1]\<rparr>"

text \<open>
  A request whose first impression lists position 5, which agent 42 does not have, and
  its index.
\<close>

definition reqOut :: BidRequest where
  "reqOut = \<lparr>BidRequest.ID = ''r3'', Imp = [impFor42 ''0'' [JNum 5], imp1]\<rparr>"

definition idsOut :: ids where
  "idsOut = Map.empty(\<lparr>ImpId = ''0'', ExtId = 42\<rparr> \<mapsto> JArr [JNum 5],
                      \<lparr>ImpId = ''1'', ExtId = 42\<rparr> \<mapsto> JArr [JNum 0])"

text \<open>A request whose impression lists the positions 0 and 1, and its index.\<close>

definition reqTwo :: BidRequest where
  "reqTwo = \<lparr>BidRequest.ID = ''r4'', Imp = [impFor42 ''1'' [JNum 0, JNum 1]]\<rparr>"

definition idsTwo :: ids where
  "idsTwo = Map.empty(\<lparr>ImpId = ''1'', ExtId = 42\<rparr> \<mapsto> JArr [JNum 0, JNum 1])"

text \<open>A request whose first impression lists no position at all, and its index.\<close>

definition reqNone :: BidRequest where
  "reqNone = \<lparr>BidRequest.ID = ''r5'', Imp = [impFor42 ''0'' [], imp1]\<rparr>"

definition idsNone :: ids where
  "idsNone = Map.empty(\<lparr>ImpId = ''0'', ExtId = 42\<rparr> \<mapsto> JArr [],
                       \<lparr>ImpId = ''1'', ExtId = 42\<rparr> \<mapsto> JArr [JNum 0])"

section \<open>Evaluation of the concrete inputs\<close>

lemmas model_defs =
  DoBid_def DoBid_body_def Intn_def assertSlice_def assertFloat64_def assertMap_def
  assertInterface_def mapIndex_def idsIndex_def go_int_def bidExt_def
  emptyResponseWithOneSeat_def externalIdsFromRequest_def fastHandleAuctions_def HeaderSet_def

lemmas example_defs =
  creative5_def creative7_def config42_def agent42_def agent99_def agentTwo_def impFor42_def
  imp1_def req1_def idsReq1_def bid1_def resBid1_def ctx0_def rngZero_def rngOne_def impNoExt_def
  reqNoExt_def reqOut_def idsOut_def reqTwo_def idsTwo_def reqNone_def idsNone_def

lemma Itoa_0: "Itoa 0 = ''0''"
  by (simp add: Itoa_def digits.simps)

lemma Itoa_5: "Itoa 5 = ''5''"
  by (simp add: Itoa_def digits.simps)

lemma Itoa_7: "Itoa 7 = ''7''"
  by (simp add: Itoa_def digits.simps)

lemma Itoa_42: "Itoa 42 = ''42''"
  by (simp add: Itoa_def digits.simps)

lemma wrap_int_1: "wrap_int 1 = 1"
  by (simp add: wrap_int_def)

lemma DoBid_agent42_req1:
  "DoBid agent42 req1 (emptyResponseWithOneSeat req1) idsReq1 rngZero =
     Inr (agent42\<lparr>bidId := 1\<rparr>, resBid1, True, rngZero)"
  by (simp add: model_defs example_defs Itoa_0 Itoa_5 wrap_int_1)

section \<open>One iteration of \<open>DoBid\<close>\<close>

lemma agentKey_bidId [simp]: "agentKey (agent\<lparr>bidId := c\<rparr>) imp = agentKey agent imp"
  by (simp add: agentKey_def)

lemma bidExt_bidId [simp]: "bidExt (agent\<lparr>bidId := c\<rparr>) = bidExt agent"
  by (simp add: bidExt_def)

lemma eligible_bidId [simp]: "eligible ids (agent\<lparr>bidId := c\<rparr>) imps = eligible ids agent imps"
  by (simp add: eligible_def)

lemma resolved_bidId [simp]: "resolved (agent\<lparr>bidId := c\<rparr>) ids imps b = resolved agent ids imps b"
  by (simp add: resolved_def)

lemma resolved_Cons: "resolved agent ids imps b \<Longrightarrow> resolved agent ids (imp # imps) b"
  by (auto simp: resolved_def)

lemma resolved_single: "resolved agent ids [imp] b \<Longrightarrow> resolved agent ids (imp # imps) b"
  by (auto simp: resolved_def)

lemma eligible_Cons:
  "eligible ids agent (imp # imps) = eligible ids agent [imp] @ eligible ids agent imps"
  by (simp add: eligible_def)

lemma bidIdAfter_add: "bidIdAfter (m + n) c = bidIdAfter n (bidIdAfter m c)"
  by (induction m arbitrary: c) simp_all

lemma bidIds_add: "bidIds c (m + n) = bidIds c m @ bidIds (bidIdAfter m c) n"
  by (induction m arbitrary: c) simp_all

lemma length_bidIds [simp]: "length (bidIds c n) = n"
  by (induction n arbitrary: c) simp_all

text \<open>An impression without an entry for the agent is skipped.\<close>

lemma DoBid_body_skip:
  "idsIndex ids (agentKey agent imp) = JNull \<Longrightarrow>
   DoBid_body imp ids agent res rng = Inr (agent, res, rng)"
  by (simp add: DoBid_body_def agentKey_def)

text \<open>An iteration that finds an entry and returns has appended one bid.\<close>

lemma DoBid_body_bid:
  assumes "DoBid_body imp ids agent res rng = Inr (agent', res', rng')"
    and "idsIndex ids (agentKey agent imp) \<noteq> JNull"
  shows "\<exists>creativeList x seat seats.
           idsIndex ids (agentKey agent imp) = JArr creativeList \<and> creativeList \<noteq> [] \<and>
           creativeList ! (rng 0 mod length creativeList) = JNum x \<and>
           0 \<le> go_int x \<and> go_int x < int (length (Creatives (Config agent))) \<and>
           SeatBid res = seat # seats \<and>
           agent' = agent\<lparr>bidId := wrap_int (bidId agent + 1)\<rparr> \<and>
           res' = res\<lparr>SeatBid := seat\<lparr>Bid := Bid seat @
                    [\<lparr>Bid.ID = Itoa (bidId agent), ImpID = Impression.ID imp,
                      CreativeID = Itoa (Creative.Id (Creatives (Config agent) ! nat (go_int x))),
                      Bid.Price = Agent.Price agent, Bid.Ext = bidExt agent\<rparr>]\<rparr> # seats\<rparr> \<and>
           rng' = (\<lambda>i. rng (Suc i))"
  using assms
  by (auto simp: DoBid_body_def agentKey_def assertSlice_def assertFloat64_def Intn_def Let_def
      split: sum.splits json.splits if_splits list.splits prod.splits)

lemma DoBid_body_step:
  assumes "DoBid_body imp ids agent res rng = Inr (agent', res', rng')"
  shows "\<exists>new. seatBids res' = seatBids res @ new \<and>
           BidResponse.ID res' = BidResponse.ID res \<and>
           length (SeatBid res') = length (SeatBid res) \<and>
           agent' = agent\<lparr>bidId := bidIdAfter (length new) (bidId agent)\<rparr> \<and>
           map Bid.ID new = bidIds (bidId agent) (length new) \<and>
           map ImpID new = map Impression.ID (eligible ids agent [imp]) \<and>
           (\<forall>b \<in> set new. Bid.Price b = Agent.Price agent \<and> Bid.Ext b = bidExt agent \<and>
              resolved agent ids [imp] b)"
proof (cases "idsIndex ids (agentKey agent imp) = JNull")
  case True
  with assms have "agent' = agent" "res' = res"
    by (simp_all add: DoBid_body_skip)
  with True show ?thesis
    by (intro exI [of _ "[]"]) (simp add: eligible_def)
next
  case False
  from DoBid_body_bid [OF assms False] obtain creativeList x seat seats where
    h: "idsIndex ids (agentKey agent imp) = JArr creativeList" "creativeList \<noteq> []"
       "creativeList ! (rng 0 mod length creativeList) = JNum x"
       "0 \<le> go_int x" "go_int x < int (length (Creatives (Config agent)))"
       "SeatBid res = seat # seats"
       "agent' = agent\<lparr>bidId := wrap_int (bidId agent + 1)\<rparr>"
       "res' = res\<lparr>SeatBid := seat\<lparr>Bid := Bid seat @
                    [\<lparr>Bid.ID = Itoa (bidId agent), ImpID = Impression.ID imp,
                      CreativeID = Itoa (Creative.Id (Creatives (Config agent) ! nat (go_int x))),
                      Bid.Price = Agent.Price agent, Bid.Ext = bidExt agent\<rparr>]\<rparr> # seats\<rparr>"
    by blast
  let ?b = "\<lparr>Bid.ID = Itoa (bidId agent), ImpID = Impression.ID imp,
              CreativeID = Itoa (Creative.Id (Creatives (Config agent) ! nat (go_int x))),
              Bid.Price = Agent.Price agent, Bid.Ext = bidExt agent\<rparr>"
  have mem: "JNum x \<in> set creativeList"
    using h(2,3) by (metis length_greater_0_conv mod_less_divisor nth_mem)
  have "resolved agent ids [imp] ?b"
    using h(1,4,5) mem
    by (auto simp: resolved_def candidates_def creativeAt_def list_ex_iff intro!: bexI [of _ "JNum x"])
  with h False show ?thesis
    by (intro exI [of _ "[?b]"]) (simp add: seatBids_def eligible_def)
qed

section \<open>The loop of \<open>DoBid\<close> and the call\<close>

lemma DoBid_loop_shape:
  "DoBid_loop imps ids agent res rng = Inr (agent', res', rng') \<Longrightarrow>
     \<exists>new. seatBids res' = seatBids res @ new \<and>
           BidResponse.ID res' = BidResponse.ID res \<and>
           length (SeatBid res') = length (SeatBid res) \<and>
           agent' = agent\<lparr>bidId := bidIdAfter (length new) (bidId agent)\<rparr> \<and>
           map Bid.ID new = bidIds (bidId agent) (length new) \<and>
           map ImpID new = map Impression.ID (eligible ids agent imps) \<and>
           (\<forall>b \<in> set new. Bid.Price b = Agent.Price agent \<and> Bid.Ext b = bidExt agent \<and>
              resolved agent ids imps b)"
proof (induction imps arbitrary: agent res rng)
  case Nil
  then show ?case
    by (intro exI [of _ "[]"]) (simp add: eligible_def)
next
  case (Cons imp imps)
  from Cons.prems obtain agentM resM rngM where
    b: "DoBid_body imp ids agent res rng = Inr (agentM, resM, rngM)" and
    l: "DoBid_loop imps ids agentM resM rngM = Inr (agent', res', rng')"
    by (auto split: sum.splits)
  from DoBid_body_step [OF b] obtain new1 where
    n1: "seatBids resM = seatBids res @ new1"
        "BidResponse.ID resM = BidResponse.ID res"
        "length (SeatBid resM) = length (SeatBid res)"
        "agentM = agent\<lparr>bidId := bidIdAfter (length new1) (bidId agent)\<rparr>"
        "map Bid.ID new1 = bidIds (bidId agent) (length new1)"
        "map ImpID new1 = map Impression.ID (eligible ids agent [imp])"
        "\<forall>b \<in> set new1. Bid.Price b = Agent.Price agent \<and> Bid.Ext b = bidExt agent \<and>
              resolved agent ids [imp] b"
    by blast
  from Cons.IH [OF l] obtain new2 where
    n2: "seatBids res' = seatBids resM @ new2"
        "BidResponse.ID res' = BidResponse.ID resM"
        "length (SeatBid res') = length (SeatBid resM)"
        "agent' = agentM\<lparr>bidId := bidIdAfter (length new2) (bidId agentM)\<rparr>"
        "map Bid.ID new2 = bidIds (bidId agentM) (length new2)"
        "map ImpID new2 = map Impression.ID (eligible ids agentM imps)"
        "\<forall>b \<in> set new2. Bid.Price b = Agent.Price agentM \<and> Bid.Ext b = bidExt agentM \<and>
              resolved agentM ids imps b"
    by blast
  have cnt: "bidIdAfter (length (new1 @ new2)) (bidId agent) =
             bidIdAfter (length new2) (bidId agentM)"
    using n1(4) by (simp add: bidIdAfter_add)
  have ids: "map Bid.ID (new1 @ new2) = bidIds (bidId agent) (length (new1 @ new2))"
    using n1(4,5) n2(5) by (simp add: bidIds_add)
  have imps: "map ImpID (new1 @ new2) = map Impression.ID (eligible ids agent (imp # imps))"
    using n1(4,6) n2(6) by (simp add: eligible_Cons [of ids agent imp imps])
  have flds: "\<forall>b \<in> set (new1 @ new2). Bid.Price b = Agent.Price agent \<and>
                Bid.Ext b = bidExt agent \<and> resolved agent ids (imp # imps) b"
    using n1(4,7) n2(7) by (auto intro: resolved_single resolved_Cons)
  have ag: "agent' = agent\<lparr>bidId := bidIdAfter (length (new1 @ new2)) (bidId agent)\<rparr>"
    unfolding cnt using n2(4) n1(4) by simp
  from n1(1,2,3) n2(1,2,3) ag ids imps flds show ?case
    by (intro exI [of _ "new1 @ new2"]) simp
qed

text \<open>A call of \<open>DoBid\<close> that returns: what it appended, and what its flag says.\<close>

lemma DoBid_shape:
  assumes "DoBid agent req res ids rng = Inr (agent', res', ok, rng')"
  shows "\<exists>new. seatBids res' = seatBids res @ new \<and>
           BidResponse.ID res' = BidResponse.ID res \<and>
           length (SeatBid res') = length (SeatBid res) \<and>
           agent' = agent\<lparr>bidId := bidIdAfter (length new) (bidId agent)\<rparr> \<and>
           map Bid.ID new = bidIds (bidId agent) (length new) \<and>
           map ImpID new = map Impression.ID (eligible ids agent (Imp req)) \<and>
           (\<forall>b \<in> set new. Bid.Price b = Agent.Price agent \<and> Bid.Ext b = bidExt agent \<and>
              resolved agent ids (Imp req) b)"
    and "ok = (seatBids res' \<noteq> [])"
proof -
  from assms obtain seat seats where
    l: "DoBid_loop (Imp req) ids agent res rng = Inr (agent', res', rng')" and
    s: "SeatBid res' = seat # seats" "ok = (0 < length (Bid seat))"
    by (auto simp: DoBid_def split: sum.splits list.splits)
  from DoBid_loop_shape [OF l] show "\<exists>new. seatBids res' = seatBids res @ new \<and>
           BidResponse.ID res' = BidResponse.ID res \<and>
           length (SeatBid res') = length (SeatBid res) \<and>
           agent' = agent\<lparr>bidId := bidIdAfter (length new) (bidId agent)\<rparr> \<and>
           map Bid.ID new = bidIds (bidId agent) (length new) \<and>
           map ImpID new = map Impression.ID (eligible ids agent (Imp req)) \<and>
           (\<forall>b \<in> set new. Bid.Price b = Agent.Price agent \<and> Bid.Ext b = bidExt agent \<and>
              resolved agent ids (Imp req) b)" .
  from s show "ok = (seatBids res' \<noteq> [])"
    by (simp add: seatBids_def)
qed

text \<open>The loop over the agents keeps the identifier and the number of seats.\<close>

lemma agents_loop_inv:
  "agents_loop agents req ids res ok rng = Inr (res', ok', rng') \<Longrightarrow>
     BidResponse.ID res' = BidResponse.ID res \<and>
     length (SeatBid res') = length (SeatBid res) \<and> (ok \<longrightarrow> ok')"
proof (induction agents arbitrary: res ok rng)
  case Nil
  then show ?case by simp
next
  case (Cons agent agents)
  from Cons.prems obtain agentM resM tmpOk rngM where
    d: "DoBid agent req res ids rng = Inr (agentM, resM, tmpOk, rngM)" and
    l: "agents_loop agents req ids resM (tmpOk \<or> ok) rngM = Inr (res', ok', rng')"
    by (auto split: sum.splits)
  from DoBid_shape(1) [OF d] have
    "BidResponse.ID resM = BidResponse.ID res" "length (SeatBid resM) = length (SeatBid res)"
    by blast+
  with Cons.IH [OF l] show ?case by simp
qed

section \<open>The auction endpoint: outcomes\<close>

text \<open>
  C5. When the body of the request does not parse, the endpoint sets the status 204 and
  returns: headers and body of the context stay as they were, no agent is called, the
  agents keep their state (bid counters included), no random number is drawn, and the
  handler does not panic.
\<close>

theorem fastHandleAuctions_parse_failure:
  "fastHandleAuctions (Inl err) ctx agents rng = Inr (ctx\<lparr>StatusCode := 204\<rparr>, agents, rng)"
  by (simp add: fastHandleAuctions_def)

text \<open>
  C1. The request \<open>r1\<close> is parsed, and the only agent, with external id 99, has no entry
  in the index and places no bid. The endpoint answers with status 200, the two headers
  and a body, the encoding of a response whose seat is empty: the flag \<open>ok\<close> starts as
  \<open>true\<close> and is only ever or-ed with the flags of the agents, so the branch that
  answers 204 is never taken for a parsed request.
\<close>

theorem fastHandleAuctions_no_bid_status_200:
  "fastHandleAuctions (Inr (Some req1)) ctx0 [agent99] rngZero =
     Inr (\<lparr>StatusCode = 200,
           Header = [(''x-openrtb-version'', ''2.1''), (''Content-type'', ''application/json'')],
           Body = Some \<lparr>BidResponse.ID = ''r1'', SeatBid = [\<lparr>Bid = []\<rparr>]\<rparr>\<rparr>,
          [agent99], rngZero)"
  by (simp add: model_defs example_defs Itoa_42)

text \<open>
  The same holds for every parsed request: when the endpoint returns, the status is 200.
\<close>

lemma fastHandleAuctions_parsed_status:
  assumes "fastHandleAuctions (Inr (Some req)) ctx agents rng = Inr (ctx', agents', rng')"
  shows "StatusCode ctx' = 200"
proof -
  from assms obtain ids res' ok rngM where
    l: "agents_loop agents req ids (emptyResponseWithOneSeat req) True rng = Inr (res', ok, rngM)" and
    c: "ctx' = (if ok then (HeaderSet ''x-openrtb-version'' ''2.1''
                              (HeaderSet ''Content-type'' ''application/json'' ctx))
                             \<lparr>StatusCode := 200, Body := Some res'\<rparr>
                else ctx\<lparr>StatusCode := 204\<rparr>)"
    by (auto simp: fastHandleAuctions_def Let_def split: sum.splits if_splits)
  from agents_loop_inv [OF l] have "ok"
    by simp
  with c show ?thesis
    by simp
qed

text \<open>
  C8. When the endpoint returns for a parsed request, the body it has set is a response
  with exactly one seat and with the identifier of the request; the seat is made with
  no bid in it.
\<close>

theorem fastHandleAuctions_one_seat_request_id:
  assumes "fastHandleAuctions (Inr (Some req)) ctx agents rng = Inr (ctx', agents', rng')"
  shows "SeatBid (emptyResponseWithOneSeat req) = [\<lparr>Bid = []\<rparr>] \<and>
         (\<exists>res. Body ctx' = Some res \<and> length (SeatBid res) = 1 \<and>
                BidResponse.ID res = BidRequest.ID req)"
proof -
  from assms obtain ids res' ok rngM where
    l: "agents_loop agents req ids (emptyResponseWithOneSeat req) True rng = Inr (res', ok, rngM)" and
    c: "ctx' = (if ok then (HeaderSet ''x-openrtb-version'' ''2.1''
                              (HeaderSet ''Content-type'' ''application/json'' ctx))
                             \<lparr>StatusCode := 200, Body := Some res'\<rparr>
                else ctx\<lparr>StatusCode := 204\<rparr>)"
    by (auto simp: fastHandleAuctions_def Let_def split: sum.splits if_splits)
  from agents_loop_inv [OF l] have
    "BidResponse.ID res' = BidRequest.ID req" "length (SeatBid res') = 1" "ok"
    by (simp_all add: emptyResponseWithOneSeat_def)
  with c show ?thesis
    by (simp add: emptyResponseWithOneSeat_def)
qed

theorem fastHandleAuctions_one_seat_request_id_witness:
  "fastHandleAuctions (Inr (Some req1)) ctx0 [agent42] rngZero =
     Inr (\<lparr>StatusCode = 200,
           Header = [(''x-openrtb-version'', ''2.1''), (''Content-type'', ''application/json'')],
           Body = Some resBid1\<rparr>,
          [agent42], rngZero) \<and>
   SeatBid (emptyResponseWithOneSeat req1) = [\<lparr>Bid = []\<rparr>] \<and>
   (\<exists>res. Some resBid1 = Some res \<and> length (SeatBid res) = 1 \<and>
          BidResponse.ID res = BidRequest.ID req1)"
proof -
  have h: "fastHandleAuctions (Inr (Some req1)) ctx0 [agent42] rngZero =
     Inr (\<lparr>StatusCode = 200,
           Header = [(''x-openrtb-version'', ''2.1''), (''Content-type'', ''application/json'')],
           Body = Some resBid1\<rparr>,
          [agent42], rngZero)"
    by (simp add: model_defs example_defs Itoa_0 Itoa_5 Itoa_42 wrap_int_1)
  from fastHandleAuctions_one_seat_request_id [OF h] h show ?thesis
    by simp
qed

section \<open>The bid decision: flag and bids\<close>

text \<open>
  C2, as the code has it. The flag that \<open>DoBid\<close> returns says whether the seat of the
  response holds a bid when the call returns: it is true if and only if the seat held a
  bid already when the call began or this agent placed at least one bid in the call.
  When the seat is empty at the beginning, the flag is true if and only if this agent
  placed at least one bid.
\<close>

theorem DoBid_flag_seat_not_empty:
  assumes "DoBid agent req res ids rng = Inr (agent', res', ok, rng')"
  shows "ok = (seatBids res' \<noteq> []) \<and>
         ok = (seatBids res \<noteq> [] \<or> 0 < bidsPlaced res res') \<and>
         (seatBids res = [] \<longrightarrow> ok = (0 < bidsPlaced res res'))"
proof -
  from DoBid_shape [OF assms] obtain new where
    "seatBids res' = seatBids res @ new" "ok = (seatBids res' \<noteq> [])"
    by blast
  then show ?thesis
    by (auto simp: bidsPlaced_def)
qed

theorem DoBid_flag_seat_not_empty_witness:
  "DoBid agent42 req1 (emptyResponseWithOneSeat req1) idsReq1 rngZero =
     Inr (agent42\<lparr>bidId := 1\<rparr>, resBid1, True, rngZero) \<and>
   seatBids (emptyResponseWithOneSeat req1) = [] \<and>
   True = (0 < bidsPlaced (emptyResponseWithOneSeat req1) resBid1)"
proof -
  have e: "seatBids (emptyResponseWithOneSeat req1) = []"
    by (simp add: seatBids_def emptyResponseWithOneSeat_def)
  from DoBid_flag_seat_not_empty [OF DoBid_agent42_req1] e DoBid_agent42_req1 show ?thesis
    by blast
qed

text \<open>
  C2, as it is stated, fails: agent 99 is called with the response in which agent 42
  has placed its bid. Agent 99 has no entry in the index and places no bid, and its
  flag is true.
\<close>

theorem DoBid_flag_counterexample:
  "DoBid agent99 req1 resBid1 idsReq1 rngZero = Inr (agent99, resBid1, True, rngZero) \<and>
   bidsPlaced resBid1 resBid1 = 0"
  by (simp add: model_defs example_defs bidsPlaced_def)

text \<open>
  C7. The bids that a call of \<open>DoBid\<close> appends to the seat, in order: their identifiers
  are the decimal strings of the successive values of the bid counter, beginning with
  its value before the call, and the counter ends behind the last of them; their
  impressions are those with an entry for the agent, in request order; every one has the
  price of the agent, the extension with the external id of the agent and the priority
  1, and as creative identifier the decimal string of the id of the creative that the
  agent configures at a position listed for the impression.
\<close>

theorem DoBid_composes_bids:
  assumes "DoBid agent req res ids rng = Inr (agent', res', ok, rng')"
  shows "\<exists>new. seatBids res' = seatBids res @ new \<and>
           map Bid.ID new = bidIds (bidId agent) (length new) \<and>
           bidId agent' = bidIdAfter (length new) (bidId agent) \<and>
           map ImpID new = map Impression.ID (eligible ids agent (Imp req)) \<and>
           (\<forall>b \<in> set new.
              Bid.Price b = Agent.Price agent \<and>
              Bid.Ext b = JObj [(''external-id'', JNum (of_int (ExternalId (Config agent)))),
                                (''priority'', JNum 1)] \<and>
              resolved agent ids (Imp req) b)"
proof -
  from DoBid_shape(1) [OF assms] obtain new where
    n: "seatBids res' = seatBids res @ new"
       "agent' = agent\<lparr>bidId := bidIdAfter (length new) (bidId agent)\<rparr>"
       "map Bid.ID new = bidIds (bidId agent) (length new)"
       "map ImpID new = map Impression.ID (eligible ids agent (Imp req))"
       "\<forall>b \<in> set new. Bid.Price b = Agent.Price agent \<and> Bid.Ext b = bidExt agent \<and>
              resolved agent ids (Imp req) b"
    by blast
  from n(2) have "bidId agent' = bidIdAfter (length new) (bidId agent)"
    by (metis Agent.select_convs(8) Agent.surjective Agent.update_convs(8))
  with n(1,3,4,5) show ?thesis
    by (intro exI [of _ new]) (simp add: bidExt_def)
qed

theorem DoBid_composes_bids_witness:
  "DoBid agent42 req1 (emptyResponseWithOneSeat req1) idsReq1 rngZero =
     Inr (agent42\<lparr>bidId := 1\<rparr>, resBid1, True, rngZero) \<and>
   (\<exists>new. seatBids resBid1 = seatBids (emptyResponseWithOneSeat req1) @ new \<and>
           map Bid.ID new = bidIds (bidId agent42) (length new) \<and>
           bidId (agent42\<lparr>bidId := 1\<rparr>) = bidIdAfter (length new) (bidId agent42) \<and>
           map ImpID new = map Impression.ID (eligible idsReq1 agent42 (Imp req1)) \<and>
           (\<forall>b \<in> set new.
              Bid.Price b = Agent.Price agent42 \<and>
              Bid.Ext b = JObj [(''external-id'', JNum (of_int (ExternalId (Config agent42)))),
                                (''priority'', JNum 1)] \<and>
              resolved agent42 idsReq1 (Imp req1) b))"
  using DoBid_agent42_req1 DoBid_composes_bids [OF DoBid_agent42_req1]
  by (rule conjI)

section \<open>Building the creative index: malformed extension data\<close>

lemma externalIds_loop_malformed:
  "list_ex (malformedId imp) extIDs \<Longrightarrow> externalIds_loop imp extIDs ids = Inl TypeAssertion"
  by (induction extIDs arbitrary: ids)
    (auto simp: malformedId_def assertFloat64_def assertMap_def assertInterface_def Let_def
      split: json.splits sum.splits)

lemma externalIds_loop_wellformed:
  "\<not> list_ex (malformedId imp) extIDs \<Longrightarrow> \<exists>ids'. externalIds_loop imp extIDs ids = Inr ids'"
  by (induction extIDs arbitrary: ids)
    (auto simp: malformedId_def assertFloat64_def assertMap_def assertInterface_def Let_def
      split: json.splits sum.splits)

lemma externalIds_imps_malformed:
  "\<exists>imp \<in> set imps. malformedExt imp \<Longrightarrow> externalIds_imps imps ids = Inl TypeAssertion"
proof (induction imps arbitrary: ids)
  case Nil
  then show ?case by simp
next
  case (Cons imp imps)
  show ?case
  proof (cases "malformedExt imp")
    case True
    then show ?thesis
      by (auto simp: malformedExt_def assertSlice_def externalIds_loop_malformed
          split: json.splits)
  next
    case False
    then obtain extIDs where
      e: "mapIndex (Impression.Ext imp) ''external-ids'' = JArr extIDs"
         "\<not> list_ex (malformedId imp) extIDs"
      by (auto simp: malformedExt_def split: json.splits)
    from externalIds_loop_wellformed [OF e(2)] obtain ids' where
      "externalIds_loop imp extIDs ids = Inr ids'"
      by blast
    moreover from Cons.prems False have "\<exists>imp \<in> set imps. malformedExt imp"
      by simp
    ultimately show ?thesis
      using e(1) Cons.IH by (simp add: assertSlice_def)
  qed
qed

lemma externalIds_imps_wellformed:
  "\<not> (\<exists>imp \<in> set imps. malformedExt imp) \<Longrightarrow> \<exists>ids'. externalIds_imps imps ids = Inr ids'"
proof (induction imps arbitrary: ids)
  case Nil
  then show ?case by simp
next
  case (Cons imp imps)
  then have wf: "\<not> malformedExt imp" and rest: "\<not> (\<exists>imp \<in> set imps. malformedExt imp)"
    by simp_all
  from wf obtain extIDs where
    e: "mapIndex (Impression.Ext imp) ''external-ids'' = JArr extIDs"
       "\<not> list_ex (malformedId imp) extIDs"
    by (auto simp: malformedExt_def split: json.splits)
  from externalIds_loop_wellformed [OF e(2)] obtain idsM where
    "externalIds_loop imp extIDs ids = Inr idsM"
    by blast
  with e(1) Cons.IH [OF rest, of idsM] show ?case
    by (simp add: assertSlice_def)
qed

text \<open>
  C3, as the code has it. When the extension data of some impression of the request is
  missing or malformed, \<open>externalIdsFromRequest\<close> panics on the failed type assertion:
  no impression is skipped and no index is returned for the request. It returns an index
  exactly when no impression of the request has malformed extension data.
\<close>

theorem externalIdsFromRequest_malformed_panics:
  "(externalIdsFromRequest req = Inl TypeAssertion) = (\<exists>imp \<in> set (Imp req). malformedExt imp) \<and>
   (\<exists>ids. externalIdsFromRequest req = Inr ids) = (\<not> (\<exists>imp \<in> set (Imp req). malformedExt imp))"
proof (cases "\<exists>imp \<in> set (Imp req). malformedExt imp")
  case True
  from externalIds_imps_malformed [OF True] True show ?thesis
    by (simp add: externalIdsFromRequest_def)
next
  case False
  from externalIds_imps_wellformed [OF False, of Map.empty] obtain ids where
    "externalIds_imps (Imp req) Map.empty = Inr ids"
    by blast
  with False show ?thesis
    by (simp add: externalIdsFromRequest_def)
qed

theorem externalIdsFromRequest_malformed_panics_witness:
  "malformedExt impNoExt \<and> externalIdsFromRequest reqNoExt = Inl TypeAssertion \<and>
   \<not> malformedExt imp1 \<and> externalIdsFromRequest req1 = Inr idsReq1"
proof -
  have m: "malformedExt impNoExt"
    by (simp add: malformedExt_def impNoExt_def mapIndex_def)
  have w: "\<not> malformedExt imp1"
    by (simp add: malformedExt_def malformedId_def imp1_def impFor42_def mapIndex_def
        go_int_def Itoa_42)
  have "\<exists>imp \<in> set (Imp reqNoExt). malformedExt imp"
    using m by (simp add: reqNoExt_def)
  with externalIdsFromRequest_malformed_panics [of reqNoExt]
  have p: "externalIdsFromRequest reqNoExt = Inl TypeAssertion"
    by blast
  have "\<not> (\<exists>imp \<in> set (Imp req1). malformedExt imp)"
    using w by (simp add: req1_def)
  with externalIdsFromRequest_malformed_panics [of req1]
  have "\<exists>ids. externalIdsFromRequest req1 = Inr ids"
    by blast
  moreover have "externalIdsFromRequest req1 = Inr idsReq1"
    by (simp add: model_defs example_defs Itoa_42)
  ultimately show ?thesis
    using m w p by blast
qed

text \<open>
  C3, as it is stated, fails: the first impression of the request has no extension
  data, the second one is well formed. The index is not built for the second
  impression; the call panics.
\<close>

theorem externalIdsFromRequest_counterexample:
  "externalIdsFromRequest reqNoExt = Inl TypeAssertion"
  by (simp add: model_defs example_defs)

section \<open>The bid decision: panics\<close>

lemma DoBid_loop_append:
  "DoBid_loop (pre @ imps) ids agent res rng =
     (case DoBid_loop pre ids agent res rng of
        Inl e \<Rightarrow> Inl e
      | Inr (agentM, resM, rngM) \<Rightarrow> DoBid_loop imps ids agentM resM rngM)"
  by (induction pre arbitrary: agent res rng) (auto split: sum.splits)

lemma DoBid_body_out_of_range:
  assumes "idsIndex ids (agentKey agent imp) = JArr creativeList" and "creativeList \<noteq> []"
    and "creativeList ! (rng 0 mod length creativeList) = JNum x"
    and "go_int x < 0 \<or> int (length (Creatives (Config agent))) \<le> go_int x"
  shows "DoBid_body imp ids agent res rng = Inl IndexOutOfRange"
  using assms
  by (auto simp: DoBid_body_def agentKey_def assertSlice_def assertFloat64_def Intn_def Let_def)

text \<open>
  C4, as the code has it. When \<open>DoBid\<close> has gone through the impressions \<open>pre\<close> and the
  position selected at random for the next impression is out of range for the creatives
  of the agent (negative, or not less than their number), the call panics with an index
  out of range: the bid is not skipped, and no response is returned.
\<close>

theorem DoBid_creative_index_out_of_range:
  assumes "Imp req = pre @ imp # post"
    and "DoBid_loop pre ids agent res rng = Inr (agentM, resM, rngM)"
    and "idsIndex ids (agentKey agent imp) = JArr creativeList" and "creativeList \<noteq> []"
    and "creativeList ! (rngM 0 mod length creativeList) = JNum x"
    and "go_int x < 0 \<or> int (length (Creatives (Config agent))) \<le> go_int x"
  shows "DoBid agent req res ids rng = Inl IndexOutOfRange"
proof -
  from DoBid_loop_shape [OF assms(2)] obtain c where a1: "agentM = agent\<lparr>bidId := c\<rparr>"
    by blast
  have "DoBid_body imp ids agentM resM rngM = Inl IndexOutOfRange"
    using assms(3-6) by (intro DoBid_body_out_of_range [of _ _ _ creativeList _ x]) (simp_all add: a1)
  with assms(1,2) show ?thesis
    by (simp add: DoBid_def DoBid_loop_append)
qed

theorem DoBid_creative_index_out_of_range_witness:
  "Imp reqOut = [] @ impFor42 ''0'' [JNum 5] # [imp1] \<and>
   DoBid_loop [] idsOut agent42 (emptyResponseWithOneSeat reqOut) rngZero =
     Inr (agent42, emptyResponseWithOneSeat reqOut, rngZero) \<and>
   idsIndex idsOut (agentKey agent42 (impFor42 ''0'' [JNum 5])) = JArr [JNum 5] \<and>
   [JNum 5] ! (rngZero 0 mod length [JNum 5]) = JNum 5 \<and>
   int (length (Creatives (Config agent42))) \<le> go_int 5 \<and>
   DoBid agent42 reqOut (emptyResponseWithOneSeat reqOut) idsOut rngZero = Inl IndexOutOfRange"
proof -
  have h1: "Imp reqOut = [] @ impFor42 ''0'' [JNum 5] # [imp1]"
    by (simp add: reqOut_def)
  have h2: "DoBid_loop [] idsOut agent42 (emptyResponseWithOneSeat reqOut) rngZero =
     Inr (agent42, emptyResponseWithOneSeat reqOut, rngZero)"
    by simp
  have h3: "idsIndex idsOut (agentKey agent42 (impFor42 ''0'' [JNum 5])) = JArr [JNum 5]"
    by (simp add: idsIndex_def idsOut_def agentKey_def agent42_def config42_def impFor42_def)
  have h4: "[JNum 5] \<noteq> []"
    by simp
  have h5: "[JNum 5] ! (rngZero 0 mod length [JNum 5]) = JNum 5"
    by simp
  have h6: "go_int 5 < 0 \<or> int (length (Creatives (Config agent42))) \<le> go_int 5"
    by (simp add: go_int_def agent42_def config42_def)
  have h7: "int (length (Creatives (Config agent42))) \<le> go_int 5"
    by (simp add: go_int_def agent42_def config42_def)
  from DoBid_creative_index_out_of_range [OF h1 h2 h3 h4 h5 h6] h1 h2 h3 h5 h7 show ?thesis
    by blast
qed

text \<open>
  C4, as it is stated, fails: the first impression of the request lists position 5 only,
  and agent 42 has one creative; the second impression lists position 0. The call does
  not skip the first bid and place the second one; it panics.
\<close>

theorem DoBid_out_of_range_counterexample:
  "DoBid agent42 reqOut (emptyResponseWithOneSeat reqOut) idsOut rngZero = Inl IndexOutOfRange"
  by (simp add: model_defs example_defs)

lemma DoBid_body_empty_list:
  "ids (agentKey agent imp) = Some (JArr []) \<Longrightarrow>
   DoBid_body imp ids agent res rng = Inl IntnNonPositive"
  by (simp add: DoBid_body_def agentKey_def idsIndex_def assertSlice_def Intn_def)

lemma DoBid_loop_empty_list:
  "imp \<in> set imps \<Longrightarrow> ids (agentKey agent imp) = Some (JArr []) \<Longrightarrow>
   \<exists>e. DoBid_loop imps ids agent res rng = Inl e"
proof (induction imps arbitrary: agent res rng)
  case Nil
  then show ?case by simp
next
  case (Cons i imps)
  show ?case
  proof (cases "DoBid_body i ids agent res rng")
    case (Inl e)
    then show ?thesis by simp
  next
    case (Inr st)
    obtain agentM resM rngM where st: "st = (agentM, resM, rngM)"
      by (cases st) auto
    from Inr st have b: "DoBid_body i ids agent res rng = Inr (agentM, resM, rngM)"
      by simp
    from DoBid_body_step [OF b] obtain c where a1: "agentM = agent\<lparr>bidId := c\<rparr>"
      by blast
    from b Cons.prems have "imp \<noteq> i"
      by (auto simp: DoBid_body_empty_list)
    with Cons.prems have "imp \<in> set imps" "ids (agentKey agentM imp) = Some (JArr [])"
      by (simp_all add: a1)
    with Cons.IH [where agent = agentM and res = resM and rng = rngM]
    have "\<exists>e. DoBid_loop imps ids agentM resM rngM = Inl e"
      by blast
    with b show ?thesis
      by simp
  qed
qed

text \<open>
  C10. When the index has an entry for the agent and an impression of the request and
  the entry is the empty list, the iteration of \<open>DoBid\<close> for that impression panics in
  \<open>rand.Intn\<close>, and the call of \<open>DoBid\<close> panics, whatever the random source, the response
  and the other impressions are. So a call that returns has met no empty entry.
\<close>

theorem DoBid_empty_candidate_list_panics:
  assumes "imp \<in> set (Imp req)" and "ids (agentKey agent imp) = Some (JArr [])"
  shows "DoBid_body imp ids agent res rng = Inl IntnNonPositive \<and>
         (\<exists>e. DoBid agent req res ids rng = Inl e)"
proof -
  from assms DoBid_loop_empty_list [where imp = imp and imps = "Imp req" and ids = ids
      and agent = agent and res = res and rng = rng]
  obtain e where "DoBid_loop (Imp req) ids agent res rng = Inl e"
    by blast
  then have "DoBid agent req res ids rng = Inl e"
    by (simp add: DoBid_def)
  moreover from assms(2) have "DoBid_body imp ids agent res rng = Inl IntnNonPositive"
    by (rule DoBid_body_empty_list)
  ultimately show ?thesis
    by blast
qed

theorem DoBid_empty_candidate_list_panics_witness:
  "impFor42 ''0'' [] \<in> set (Imp reqNone) \<and>
   idsNone (agentKey agent42 (impFor42 ''0'' [])) = Some (JArr []) \<and>
   DoBid_body (impFor42 ''0'' []) idsNone agent42 (emptyResponseWithOneSeat reqNone) rngZero =
     Inl IntnNonPositive \<and>
   DoBid agent42 reqNone (emptyResponseWithOneSeat reqNone) idsNone rngZero = Inl IntnNonPositive"
proof -
  have h1: "impFor42 ''0'' [] \<in> set (Imp reqNone)"
    by (simp add: reqNone_def)
  have h2: "idsNone (agentKey agent42 (impFor42 ''0'' [])) = Some (JArr [])"
    by (simp add: idsNone_def agentKey_def agent42_def config42_def impFor42_def)
  have h3: "DoBid agent42 reqNone (emptyResponseWithOneSeat reqNone) idsNone rngZero =
     Inl IntnNonPositive"
    by (simp add: model_defs example_defs)
  from h1 h2 h3 DoBid_empty_candidate_list_panics [where imp = "impFor42 ''0'' []"
      and req = reqNone and ids = idsNone and agent = agent42
      and res = "emptyResponseWithOneSeat reqNone" and rng = rngZero]
  show ?thesis
    by blast
qed

section \<open>The bid decision does not depend on the random source\<close>

lemma eraseCreative_eq:
  "Bid.ID a = Bid.ID b \<Longrightarrow> ImpID a = ImpID b \<Longrightarrow> Bid.Price a = Bid.Price b \<Longrightarrow>
   Bid.Ext a = Bid.Ext b \<Longrightarrow> eraseCreative a = eraseCreative b"
  by (cases a, cases b) (simp add: eraseCreative_def)

lemma map_eraseCreative_eq:
  "map Bid.ID xs = map Bid.ID ys \<Longrightarrow> map ImpID xs = map ImpID ys \<Longrightarrow>
   \<forall>b \<in> set xs. Bid.Price b = p \<and> Bid.Ext b = e \<Longrightarrow>
   \<forall>b \<in> set ys. Bid.Price b = p \<and> Bid.Ext b = e \<Longrightarrow>
   map eraseCreative xs = map eraseCreative ys"
proof (induction xs arbitrary: ys)
  case Nil
  then show ?case by simp
next
  case (Cons x xs)
  then obtain y ys' where ys: "ys = y # ys'"
    by (cases ys) auto
  with Cons.prems have "eraseCreative x = eraseCreative y"
    by (intro eraseCreative_eq) simp_all
  moreover from Cons.prems ys have "map eraseCreative xs = map eraseCreative ys'"
    by (intro Cons.IH) simp_all
  ultimately show ?case
    using ys by simp
qed

text \<open>
  Two calls of \<open>DoBid\<close> for the same agent, request and index, on responses with the
  same bids up to the creatives and with any two random sources: when both return,
  their seats hold the same bids up to the creatives, and their flags agree.
\<close>

lemma DoBid_decision:
  assumes a: "DoBid agent req resA ids rngA = Inr (agentA, resA', okA, rngA')"
    and b: "DoBid agent req resB ids rngB = Inr (agentB, resB', okB, rngB')"
    and e: "map eraseCreative (seatBids resA) = map eraseCreative (seatBids resB)"
  shows "map eraseCreative (seatBids resA') = map eraseCreative (seatBids resB') \<and> okA = okB"
proof -
  from DoBid_shape [OF a] obtain newA where
    na: "seatBids resA' = seatBids resA @ newA"
        "map Bid.ID newA = bidIds (bidId agent) (length newA)"
        "map ImpID newA = map Impression.ID (eligible ids agent (Imp req))"
        "\<forall>b \<in> set newA. Bid.Price b = Agent.Price agent \<and> Bid.Ext b = bidExt agent"
        "okA = (seatBids resA' \<noteq> [])"
    by blast
  from DoBid_shape [OF b] obtain newB where
    nb: "seatBids resB' = seatBids resB @ newB"
        "map Bid.ID newB = bidIds (bidId agent) (length newB)"
        "map ImpID newB = map Impression.ID (eligible ids agent (Imp req))"
        "\<forall>b \<in> set newB. Bid.Price b = Agent.Price agent \<and> Bid.Ext b = bidExt agent"
        "okB = (seatBids resB' \<noteq> [])"
    by blast
  from na(3) nb(3) have "length newA = length newB"
    by (metis length_map)
  with na(2) nb(2) have "map Bid.ID newA = map Bid.ID newB"
    by simp
  with na(3,4) nb(3,4) have "map eraseCreative newA = map eraseCreative newB"
    by (intro map_eraseCreative_eq [of _ _ "Agent.Price agent" "bidExt agent"]) simp_all
  with e na(1) nb(1) have m: "map eraseCreative (seatBids resA') = map eraseCreative (seatBids resB')"
    by simp
  then have "(seatBids resA' = []) = (seatBids resB' = [])"
    by (metis map_is_Nil_conv)
  with m na(5) nb(5) show ?thesis
    by simp
qed

lemma agents_loop_decision:
  "agents_loop agents req ids resA ok rngA = Inr (resA', okA, rngA') \<Longrightarrow>
   agents_loop agents req ids resB ok rngB = Inr (resB', okB, rngB') \<Longrightarrow>
   map eraseCreative (seatBids resA) = map eraseCreative (seatBids resB) \<Longrightarrow>
   map eraseCreative (seatBids resA') = map eraseCreative (seatBids resB') \<and> okA = okB"
proof (induction agents arbitrary: resA resB ok rngA rngB)
  case Nil
  then show ?case by simp
next
  case (Cons agent agents)
  from Cons.prems(1) obtain agentP resP okP rngP where
    dA: "DoBid agent req resA ids rngA = Inr (agentP, resP, okP, rngP)" and
    lA: "agents_loop agents req ids resP (okP \<or> ok) rngP = Inr (resA', okA, rngA')"
    by (auto split: sum.splits)
  from Cons.prems(2) obtain agentQ resQ okQ rngQ where
    dB: "DoBid agent req resB ids rngB = Inr (agentQ, resQ, okQ, rngQ)" and
    lB: "agents_loop agents req ids resQ (okQ \<or> ok) rngQ = Inr (resB', okB, rngB')"
    by (auto split: sum.splits)
  from DoBid_decision [OF dA dB Cons.prems(3)] have
    s: "map eraseCreative (seatBids resP) = map eraseCreative (seatBids resQ)" "okP = okQ"
    by simp_all
  from lB s(2) have "agents_loop agents req ids resQ (okP \<or> ok) rngQ = Inr (resB', okB, rngB')"
    by simp
  from Cons.IH [OF lA this s(1)] show ?case .
qed

lemma bidPairs_eraseCreative:
  "map eraseCreative xs = map eraseCreative ys \<Longrightarrow>
   map (\<lambda>b. (Bid.Ext b, ImpID b)) xs = map (\<lambda>b. (Bid.Ext b, ImpID b)) ys"
proof -
  assume h: "map eraseCreative xs = map eraseCreative ys"
  have "map (\<lambda>b. (Bid.Ext b, ImpID b)) zs =
        map (\<lambda>b. (Bid.Ext b, ImpID b)) (map eraseCreative zs)" for zs
    by (simp add: eraseCreative_def)
  with h show ?thesis
    by metis
qed

text \<open>
  C6, as the code has it. Two runs of the agents over the same request, the same index
  and the same response, with any two random sources: when both runs return, they place
  the same pairs of agent and impression, their bids agree in everything but the
  creative, and their flags agree.
\<close>

theorem agents_loop_decision_deterministic:
  assumes "agents_loop agents req ids res ok rngA = Inr (resA, okA, rngA')"
    and "agents_loop agents req ids res ok rngB = Inr (resB, okB, rngB')"
  shows "bidPairs (agents_loop agents req ids res ok rngA) =
           bidPairs (agents_loop agents req ids res ok rngB) \<and>
         map eraseCreative (seatBids resA) = map eraseCreative (seatBids resB) \<and>
         okA = okB"
proof -
  from agents_loop_decision [OF assms] have
    d: "map eraseCreative (seatBids resA) = map eraseCreative (seatBids resB)" "okA = okB"
    by simp_all
  from bidPairs_eraseCreative [OF d(1)] have
    "set (map (\<lambda>b. (Bid.Ext b, ImpID b)) (seatBids resA)) =
     set (map (\<lambda>b. (Bid.Ext b, ImpID b)) (seatBids resB))"
    by (rule arg_cong)
  with assms d show ?thesis
    by (simp add: bidPairs_def del: set_map)
qed

theorem agents_loop_decision_deterministic_witness:
  "agents_loop [agentTwo] reqTwo idsTwo (emptyResponseWithOneSeat reqTwo) True rngZero =
     Inr (\<lparr>BidResponse.ID = ''r4'', SeatBid = [\<lparr>Bid = [bid1]\<rparr>]\<rparr>, True, rngZero) \<and>
   agents_loop [agentTwo] reqTwo idsTwo (emptyResponseWithOneSeat reqTwo) True rngOne =
     Inr (\<lparr>BidResponse.ID = ''r4'', SeatBid = [\<lparr>Bid = [bid1\<lparr>CreativeID := ''7''\<rparr>]\<rparr>]\<rparr>, True, rngOne) \<and>
   bidPairs (agents_loop [agentTwo] reqTwo idsTwo (emptyResponseWithOneSeat reqTwo) True rngZero) =
     bidPairs (agents_loop [agentTwo] reqTwo idsTwo (emptyResponseWithOneSeat reqTwo) True rngOne)"
proof -
  have a: "agents_loop [agentTwo] reqTwo idsTwo (emptyResponseWithOneSeat reqTwo) True rngZero =
     Inr (\<lparr>BidResponse.ID = ''r4'', SeatBid = [\<lparr>Bid = [bid1]\<rparr>]\<rparr>, True, rngZero)"
    by (simp add: model_defs example_defs Itoa_0 Itoa_5 wrap_int_1)
  have b: "agents_loop [agentTwo] reqTwo idsTwo (emptyResponseWithOneSeat reqTwo) True rngOne =
     Inr (\<lparr>BidResponse.ID = ''r4'', SeatBid = [\<lparr>Bid = [bid1\<lparr>CreativeID := ''7''\<rparr>]\<rparr>]\<rparr>, True, rngOne)"
    by (simp add: model_defs example_defs Itoa_0 Itoa_7 wrap_int_1)
  from agents_loop_decision_deterministic [OF a b] a b show ?thesis
    by blast
qed

text \<open>
  C6, as it is stated, fails: the impression lists the positions 0 and 1 and agent 42 has
  one creative. With the draw 0 the agent bids on the impression; with the draw 1 the
  run panics and no bid is placed.
\<close>

theorem agents_loop_decision_counterexample:
  "bidPairs (agents_loop [agent42] reqTwo idsTwo (emptyResponseWithOneSeat reqTwo) True rngZero) \<noteq>
   bidPairs (agents_loop [agent42] reqTwo idsTwo (emptyResponseWithOneSeat reqTwo) True rngOne)"
proof -
  have "agents_loop [agent42] reqTwo idsTwo (emptyResponseWithOneSeat reqTwo) True rngZero =
     Inr (\<lparr>BidResponse.ID = ''r4'', SeatBid = [\<lparr>Bid = [bid1]\<rparr>]\<rparr>, True, rngZero)"
    by (simp add: model_defs example_defs Itoa_0 Itoa_5 wrap_int_1)
  moreover
  have "agents_loop [agent42] reqTwo idsTwo (emptyResponseWithOneSeat reqTwo) True rngOne =
     Inl IndexOutOfRange"
    by (simp add: model_defs example_defs)
  ultimately show ?thesis
    by (simp add: bidPairs_def seatBids_def)
qed

section \<open>Registration and bidding\<close>

lemma bidExt_registered [simp]: "bidExt (agent\<lparr>registered := b\<rparr>) = bidExt agent"
  by (simp add: bidExt_def)

lemma DoBid_body_registered:
  "DoBid_body imp ids (agent\<lparr>registered := b\<rparr>) res rng =
     (case DoBid_body imp ids agent res rng of
        Inl e \<Rightarrow> Inl e
      | Inr (agent', res', rng') \<Rightarrow> Inr (agent'\<lparr>registered := b\<rparr>, res', rng'))"
  by (simp add: DoBid_body_def Let_def split: sum.splits list.splits prod.splits)

lemma DoBid_loop_registered:
  "DoBid_loop imps ids (agent\<lparr>registered := b\<rparr>) res rng =
     (case DoBid_loop imps ids agent res rng of
        Inl e \<Rightarrow> Inl e
      | Inr (agent', res', rng') \<Rightarrow> Inr (agent'\<lparr>registered := b\<rparr>, res', rng'))"
  by (induction imps arbitrary: agent res rng)
    (auto simp: DoBid_body_registered split: sum.splits)

lemma DoBid_registered:
  "DoBid (agent\<lparr>registered := b\<rparr>) req res ids rng =
     (case DoBid agent req res ids rng of
        Inl e \<Rightarrow> Inl e
      | Inr (agent', res', ok, rng') \<Rightarrow> Inr (agent'\<lparr>registered := b\<rparr>, res', ok, rng'))"
  by (auto simp: DoBid_def DoBid_loop_registered split: sum.splits list.splits)

lemma agents_loop_registered:
  "agents_loop (map (\<lambda>a. a\<lparr>registered := flag a\<rparr>) agents) req ids res ok rng =
   agents_loop agents req ids res ok rng"
  by (induction agents arbitrary: res ok rng)
    (auto simp: DoBid_registered split: sum.splits)

text \<open>
  C9. When the request to the configuration service can be built and the call fails,
  \<open>RegisterAgent\<close> returns with the agent as it was: the flag \<open>registered\<close> is not set and
  no other field changes. What \<open>DoBid\<close> does is the same whatever the flag is (the
  agent it leaves carries the flag it was given), and so is the result of the run of the
  agents over a request.
\<close>

theorem RegisterAgent_failure_and_bidding:
  assumes "validURL (agentURL acsIp acsPort agent)"
    and "\<not> httpDo (agentURL acsIp acsPort agent)"
  shows "RegisterAgent validURL httpDo acsIp acsPort agent = Inr agent \<and>
         DoBid (agent\<lparr>registered := b\<rparr>) req res ids rng =
           (case DoBid agent req res ids rng of
              Inl e \<Rightarrow> Inl e
            | Inr (agent', res', ok, rng') \<Rightarrow> Inr (agent'\<lparr>registered := b\<rparr>, res', ok, rng')) \<and>
         agents_loop (map (\<lambda>a. a\<lparr>registered := flag a\<rparr>) agents) req ids res ok rng =
           agents_loop agents req ids res ok rng"
  using assms
  by (simp add: RegisterAgent_def DoBid_registered agents_loop_registered)

theorem RegisterAgent_failure_and_bidding_witness:
  "RegisterAgent (\<lambda>url. True) (\<lambda>url. False) ''127.0.0.1'' 9986 agent42 = Inr agent42 \<and>
   registered agent42 = False \<and>
   DoBid (agent42\<lparr>registered := True\<rparr>) req1 (emptyResponseWithOneSeat req1) idsReq1 rngZero =
     Inr (agent42\<lparr>bidId := 1, registered := True\<rparr>, resBid1, True, rngZero)"
proof -
  have h1: "(\<lambda>url. True) (agentURL ''127.0.0.1'' 9986 agent42)"
    by simp
  have h2: "\<not> (\<lambda>url. False) (agentURL ''127.0.0.1'' 9986 agent42)"
    by simp
  have r: "registered agent42 = False"
    by (simp add: agent42_def)
  from RegisterAgent_failure_and_bidding [where validURL = "\<lambda>url. True" and httpDo = "\<lambda>url. False"
      and acsIp = "''127.0.0.1''" and acsPort = 9986 and agent = agent42 and b = True
      and req = req1 and res = "emptyResponseWithOneSeat req1" and ids = idsReq1 and rng = rngZero,
      OF h1 h2] r
  show ?thesis
    by (simp add: DoBid_agent42_req1)
qed

end
